theory Spec2Isabelle
  imports Complex_Main
begin

section \<open>Python values used by the tracker\<close>

subsection \<open>Strings\<close>

text \<open>
  Strings are byte lists. The status strings and the time strings of the tracker are
  ASCII; the one non-ASCII literal of \<open>progress_tracker.py\<close>, the text returned by
  \<open>get_eta\<close> before anything is processed, is kept as its UTF-8 bytes.
  \<open>str.lower\<close> is modelled on ASCII letters, the only ones the recognised
  status words contain.
\<close>

definition lower_char :: "char \<Rightarrow> char" where
  "lower_char c = (let n = (of_char c :: nat) in if 65 \<le> n \<and> n \<le> 90 then char_of (n + 32) else c)"

definition lower :: "string \<Rightarrow> string" where
  "lower s = map lower_char s"

text \<open>Python ints are unbounded and are modelled by \<open>int\<close>. The decimal digits of
  a non-negative int, most significant first (\<open>str(n)\<close>):\<close>

function digits :: "int \<Rightarrow> string" where
  "digits n = (if n < 10 then [char_of (48 + n)] else digits (n div 10) @ [char_of (48 + n mod 10)])"
  by pat_completeness auto
termination
  by (relation "measure nat") auto

declare digits.simps [simp del]

text \<open>The format specification \<open>{n:02d}\<close>: sign, then the digits padded with zeros
  to a total width of two.\<close>

definition fmt02d :: "int \<Rightarrow> string" where
  "fmt02d n = (if n < 0 then CHR ''-'' # digits (- n)
               else if n < 10 then CHR ''0'' # digits n else digits n)"

subsection \<open>Floats\<close>

text \<open>
  A Python float is an IEEE binary64 value; it is modelled by the rational number it
  denotes. Each arithmetic operation computes the exact result and rounds it to the
  nearest value with a 53-bit significand, ties to even (\<open>round64\<close>), with the
  spacing \<open>2^-1074\<close> of the subnormal range as the finest one. Infinities and NaN
  are not modelled: the floats of the tracker are clock readings, their differences,
  and quotients and products with file counts.
\<close>

function bitlen :: "int \<Rightarrow> nat" where
  "bitlen n = (if n \<le> 0 then 0 else Suc (bitlen (n div 2)))"
  by pat_completeness auto
termination
  by (relation "measure nat") auto

declare bitlen.simps [simp del]

definition ilog2 :: "rat \<Rightarrow> int" where
  \<comment> \<open>for \<open>x > 0\<close>, the \<open>k\<close> with \<open>2^k \<le> x < 2^(k+1)\<close>\<close>
  "ilog2 x = (let (a, b) = quotient_of x;
                  k = int (bitlen a) - int (bitlen b)
              in if 2 powi k \<le> x then k else k - 1)"

definition round_half_even :: "rat \<Rightarrow> int" where
  "round_half_even x = (let f = \<lfloor>x\<rfloor>; r = x - of_int f in
     if r < 1 / 2 then f else if 1 / 2 < r then f + 1 else if even f then f else f + 1)"

definition round64 :: "rat \<Rightarrow> rat" where
  "round64 x = (if x = 0 then 0 else
     let e = max (ilog2 \<bar>x\<bar> - 52) (- 1074);
         m = round_half_even (\<bar>x\<bar> / 2 powi e)
     in sgn x * of_int m * 2 powi e)"

definition fadd :: "rat \<Rightarrow> rat \<Rightarrow> rat" where "fadd x y = round64 (x + y)"
definition fsub :: "rat \<Rightarrow> rat \<Rightarrow> rat" where "fsub x y = round64 (x - y)"
definition fmul :: "rat \<Rightarrow> rat \<Rightarrow> rat" where "fmul x y = round64 (x * y)"
definition fdiv :: "rat \<Rightarrow> rat \<Rightarrow> rat" where "fdiv x y = round64 (x / y)"

text \<open>\<open>float(n)\<close> for an int, and \<open>p / q\<close> for two ints (the correctly rounded
  quotient; the callers guard \<open>q \<noteq> 0\<close>).\<close>

definition float_of_int :: "int \<Rightarrow> rat" where "float_of_int n = round64 (of_int n)"

definition int_truediv :: "int \<Rightarrow> int \<Rightarrow> rat" where
  "int_truediv p q = round64 (of_int p / of_int q)"

text \<open>\<open>int(x)\<close> truncates towards zero.\<close>

definition py_int :: "rat \<Rightarrow> int" where
  "py_int x = (if x < 0 then - \<lfloor>- x\<rfloor> else \<lfloor>x\<rfloor>)"

text \<open>
  \<open>x % y\<close> and \<open>x // y\<close> on floats, as the interpreter computes them: the exact
  C remainder \<open>fmod\<close> (sign of \<open>x\<close>), moved to the sign of the divisor, and the
  quotient \<open>(x - mod) / y\<close> snapped to the nearest integral value.
\<close>

definition c_fmod :: "rat \<Rightarrow> rat \<Rightarrow> rat" where
  "c_fmod x y = x - y * of_int (py_int (x / y))"

definition float_rem :: "rat \<Rightarrow> rat \<Rightarrow> rat" where
  "float_rem x y = (let m = c_fmod x y in
     if m \<noteq> 0 \<and> ((y < 0) \<noteq> (m < 0)) then fadd m y else m)"

definition float_floor_div :: "rat \<Rightarrow> rat \<Rightarrow> rat" where
  "float_floor_div x y = (let m = c_fmod x y;
       d0 = fdiv (fsub x m) y;
       d = (if m \<noteq> 0 \<and> ((y < 0) \<noteq> (m < 0)) then fsub d0 1 else d0);
       fl = of_int \<lfloor>d\<rfloor>
     in if d \<noteq> 0 then (if 1 / 2 < fsub d fl then fadd fl 1 else fl) else 0)"

subsection \<open>The clock\<close>

text \<open>
  \<open>time.time()\<close> is an input of the program: the world holds every reading the
  clock will give, and how many have been taken.
\<close>

record world =
  clock :: "nat \<Rightarrow> rat"
  reads :: nat

definition time_time :: "world \<Rightarrow> rat \<times> world" where
  "time_time w = (clock w (reads w), w\<lparr>reads := Suc (reads w)\<rparr>)"

section \<open>progress\_tracker.py\<close>

record ConversionStats =
  success :: int
  partial :: int
  failed :: int
  skipped :: int

definition new_ConversionStats :: ConversionStats where
  "new_ConversionStats = \<lparr>success = 0, partial = 0, failed = 0, skipped = 0\<rparr>"

definition total_processed :: "ConversionStats \<Rightarrow> int" where
  "total_processed s = success s + partial s + failed s + skipped s"

definition success_rate :: "ConversionStats \<Rightarrow> rat" where
  "success_rate s = (let total = total_processed s in
     if total = 0 then 0
     else fmul (int_truediv (success s + partial s) total) (float_of_int 100))"

record ProgressTracker =
  total_files :: int
  current_file_index :: int
  current_filename :: string
  start_time :: rat
  stats :: ConversionStats
  file_start_times :: "int \<rightharpoonup> rat"
  file_end_times :: "int \<rightharpoonup> rat"

definition new_ProgressTracker :: "int \<Rightarrow> world \<Rightarrow> ProgressTracker \<times> world" where
  "new_ProgressTracker n w = (let (now, w') = time_time w in
     (\<lparr>total_files = n, current_file_index = 0, current_filename = [],
       start_time = now, stats = new_ConversionStats,
       file_start_times = Map.empty, file_end_times = Map.empty\<rparr>, w'))"

definition start_file :: "string \<Rightarrow> int \<Rightarrow> ProgressTracker \<Rightarrow> world \<Rightarrow> ProgressTracker \<times> world" where
  "start_file filename index t w = (let (now, w') = time_time w in
     (t\<lparr>current_file_index := index, current_filename := filename,
        file_start_times := (file_start_times t)(index \<mapsto> now)\<rparr>, w'))"

definition end_file :: "int \<Rightarrow> ProgressTracker \<Rightarrow> world \<Rightarrow> ProgressTracker \<times> world" where
  "end_file index t w = (let (now, w') = time_time w in
     (t\<lparr>file_end_times := (file_end_times t)(index \<mapsto> now)\<rparr>, w'))"

definition update_stats :: "string \<Rightarrow> ProgressTracker \<Rightarrow> ProgressTracker" where
  "update_stats status t = (let status_lower = lower status in
     if status_lower = ''success'' then
       t\<lparr>stats := (stats t)\<lparr>success := success (stats t) + 1\<rparr>\<rparr>
     else if status_lower \<in> set [''partial'', ''partial_success''] then
       t\<lparr>stats := (stats t)\<lparr>partial := partial (stats t) + 1\<rparr>\<rparr>
     else if status_lower \<in> set [''failed'', ''failure'', ''error''] then
       t\<lparr>stats := (stats t)\<lparr>failed := failed (stats t) + 1\<rparr>\<rparr>
     else if status_lower = ''skipped'' then
       t\<lparr>stats := (stats t)\<lparr>skipped := skipped (stats t) + 1\<rparr>\<rparr>
     else t)"

definition get_progress_percentage :: "ProgressTracker \<Rightarrow> int" where
  "get_progress_percentage t = (if total_files t = 0 then 0
     else py_int (fmul (int_truediv (total_processed (stats t)) (total_files t)) (float_of_int 100)))"

definition get_current_file_percentage :: "ProgressTracker \<Rightarrow> int option" where
  "get_current_file_percentage t = None"

definition get_elapsed_time :: "ProgressTracker \<Rightarrow> world \<Rightarrow> rat \<times> world" where
  "get_elapsed_time t w = (let (now, w') = time_time w in (fsub now (start_time t), w'))"

definition get_average_time_per_file :: "ProgressTracker \<Rightarrow> world \<Rightarrow> rat \<times> world" where
  "get_average_time_per_file t w = (let completed = total_processed (stats t) in
     if completed = 0 then (0, w)
     else (let (elapsed, w') = get_elapsed_time t w in (fdiv elapsed (float_of_int completed), w')))"

definition format_time :: "rat \<Rightarrow> string" where
  "format_time seconds = (let
       hours = py_int (float_floor_div seconds (float_of_int 3600));
       minutes = py_int (float_floor_div (float_rem seconds (float_of_int 3600)) (float_of_int 60));
       secs = py_int (float_rem seconds (float_of_int 60))
     in fmt02d hours @ '':'' @ fmt02d minutes @ '':'' @ fmt02d secs)"

definition calculating :: string where
  \<comment> \<open>the Cyrillic word for "calculation" followed by three dots, in UTF-8\<close>
  "calculating = [CHR 0xD0, CHR 0xA0, CHR 0xD0, CHR 0xB0, CHR 0xD1, CHR 0x81, CHR 0xD1, CHR 0x87,
                  CHR 0xD0, CHR 0xB5, CHR 0xD1, CHR 0x82, CHR ''.'', CHR ''.'', CHR ''.'']"

definition get_eta :: "ProgressTracker \<Rightarrow> world \<Rightarrow> (rat \<times> string) \<times> world" where
  "get_eta t w = (let processed = total_processed (stats t) in
     if processed = 0 then ((0, calculating), w)
     else (let remaining_files = total_files t - processed in
       if remaining_files \<le> 0 then ((0, ''00:00:00''), w)
       else (let (avg_time, w') = get_average_time_per_file t w;
                 eta_seconds = fmul (float_of_int remaining_files) avg_time
             in ((eta_seconds, format_time eta_seconds), w'))))"

definition get_elapsed_formatted :: "ProgressTracker \<Rightarrow> world \<Rightarrow> string \<times> world" where
  "get_elapsed_formatted t w = (let (elapsed, w') = get_elapsed_time t w in (format_time elapsed, w'))"

record progress_message =
  msg_current :: int
  msg_total :: int
  msg_filename :: string
  msg_percentage :: int
  msg_current_file_percentage :: "int option"
  msg_elapsed :: string
  msg_eta :: string
  msg_eta_seconds :: rat

definition to_progress_message :: "ProgressTracker \<Rightarrow> world \<Rightarrow> progress_message \<times> world" where
  "to_progress_message t w = (let
       ((eta_seconds, eta_formatted), w1) = get_eta t w;
       (elapsed, w2) = get_elapsed_formatted t w1
     in (\<lparr>msg_current = current_file_index t,
          msg_total = total_files t,
          msg_filename = current_filename t,
          msg_percentage = get_progress_percentage t,
          msg_current_file_percentage = get_current_file_percentage t,
          msg_elapsed = elapsed,
          msg_eta = eta_formatted,
          msg_eta_seconds = eta_seconds\<rparr>, w2))"

record stats_message =
  msg_stats :: ConversionStats
  msg_total_processed :: int
  msg_success_rate :: rat

definition to_stats_message :: "ProgressTracker \<Rightarrow> stats_message" where
  "to_stats_message t = \<lparr>msg_stats = stats t,
     msg_total_processed = total_processed (stats t),
     msg_success_rate = success_rate (stats t)\<rparr>"

definition is_complete :: "ProgressTracker \<Rightarrow> bool" where
  "is_complete t = (total_processed (stats t) \<ge> total_files t)"

section \<open>convert\_to\_markdown.py\<close>

text \<open>An exception is modelled by its message, \<open>str(e)\<close>.\<close>

datatype exn = Exception string

text \<open>
  Of a \<open>pathlib.Path\<close> the code reads the \<open>name\<close>, the \<open>stem\<close> and the size
  reported by \<open>stat()\<close>, which raises when the file cannot be examined (a file removed
  since it was selected, a dangling link).
\<close>

record path =
  name :: string
  stem :: string
  st_size :: "exn + int"

text \<open>The attributes of \<open>Config\<close> that \<open>convert_documents\<close> reads.\<close>

record Config =
  MAX_FILE_SIZE :: int
  MAX_NUM_PAGES :: int
  CONTINUE_ON_ERROR :: bool

subsection \<open>DocumentConversionStats\<close>

text \<open>
  The reason text of a skipped file is a formatted sentence over the file size and the
  limit; it is kept as these two numbers. The error text of a failed file is either the
  save-error sentence over \<open>str(e)\<close> or the message of the conversion error. The
  start time of the statistics, which only \<open>print_summary\<close> reads, is left out.
\<close>

datatype skip_reason = SizeOverLimit int int

datatype failure_text = SaveError string | ConversionError string

datatype error_info =
    PartialInfo string "string list"
  | FailedInfo string failure_text
  | SkippedInfo string skip_reason

record DocumentConversionStats =
  doc_total_files :: int
  successful :: int
  partial_success :: int
  doc_failed :: int
  doc_skipped :: int
  doc_errors :: "error_info list"

definition new_DocumentConversionStats :: DocumentConversionStats where
  "new_DocumentConversionStats = \<lparr>doc_total_files = 0, successful = 0, partial_success = 0,
     doc_failed = 0, doc_skipped = 0, doc_errors = []\<rparr>"

definition add_success :: "DocumentConversionStats \<Rightarrow> DocumentConversionStats" where
  "add_success d = d\<lparr>successful := successful d + 1\<rparr>"

definition add_partial_success ::
    "string \<Rightarrow> string list \<Rightarrow> DocumentConversionStats \<Rightarrow> DocumentConversionStats" where
  "add_partial_success filename errs d = d\<lparr>partial_success := partial_success d + 1,
     doc_errors := doc_errors d @ [PartialInfo filename errs]\<rparr>"

definition add_failure ::
    "string \<Rightarrow> failure_text \<Rightarrow> DocumentConversionStats \<Rightarrow> DocumentConversionStats" where
  "add_failure filename err d = d\<lparr>doc_failed := doc_failed d + 1,
     doc_errors := doc_errors d @ [FailedInfo filename err]\<rparr>"

definition add_skipped ::
    "string \<Rightarrow> skip_reason \<Rightarrow> DocumentConversionStats \<Rightarrow> DocumentConversionStats" where
  "add_skipped filename reason d = d\<lparr>doc_skipped := doc_skipped d + 1,
     doc_errors := doc_errors d @ [SkippedInfo filename reason]\<rparr>"

subsection \<open>generate\_unique\_output\_name\<close>

text \<open>
  The \<open>while\<close> loop over candidate names. It may run forever on an infinite set, so
  it is a partial function: \<open>None\<close> stands for a loop that does not end.
\<close>

partial_function (option) name_loop ::
    "string \<Rightarrow> string set \<Rightarrow> string \<Rightarrow> int \<Rightarrow> string option" where
  "name_loop base_name used_names output_name counter =
     (if output_name \<in> used_names
      then name_loop base_name used_names (base_name @ ''_'' @ digits counter @ ''.md'') (counter + 1)
      else Some output_name)"

definition generate_unique_output_name ::
    "string \<Rightarrow> path \<Rightarrow> string set \<Rightarrow> (string \<times> string set) option" where
  "generate_unique_output_name output_dir original_path used_names =
     (case name_loop (stem original_path) used_names (stem original_path @ ''.md'') 1 of
        None \<Rightarrow> None
      | Some output_name \<Rightarrow> Some (output_name, insert output_name used_names))"


definition digits_value :: "string \<Rightarrow> int" where
  "digits_value s = foldl (\<lambda>a c. 10 * a + (of_char c - 48)) 0 s"

subsection \<open>Messages\<close>

text \<open>
  The messages are the dictionaries handed to \<open>progress_callback\<close> and put on the
  queue, told apart by their \<open>type\<close> entry. The text of a log message is a formatted
  sentence; it is kept as the kind of sentence with the values formatted into it.
  Records sent through the \<open>logging\<close> module are not part of the model.
\<close>

datatype emoji = InfoSign | CheckMark | WarningSign | CrossMark

datatype log_text =
    SettingUpConverter
  | StartingConversion int
  | SavedOk string
  | SaveFailed string string
  | PartiallyOk string
  | ErrorDetail string
  | ConversionFailed string string

datatype message =
    Log emoji log_text string
  | Progress progress_message
  | Stats stats_message
  | Complete ConversionStats
  | Error string

fun msg_type :: "message \<Rightarrow> string" where
  "msg_type (Log e t l) = ''log''"
| "msg_type (Progress p) = ''progress''"
| "msg_type (Stats s) = ''stats''"
| "msg_type (Complete s) = ''complete''"
| "msg_type (Error e) = ''error''"

definition is_terminal :: "message \<Rightarrow> bool" where
  "is_terminal m = (msg_type m = ''complete'' \<or> msg_type m = ''error'')"

subsection \<open>The conversion engine\<close>

text \<open>
  The engine is external. \<open>convert_all\<close> returns a lazy sequence: each request for
  the next result either yields one or raises, and the sequence ends when the list of
  steps is exhausted. Of a result the code reads the status, the messages of its errors
  and whether saving its document raises.
\<close>

datatype ConversionStatus = PENDING | STARTED | FAILURE | SUCCESS | PARTIAL_SUCCESS | SKIPPED

record conv_result =
  status :: ConversionStatus
  errors :: "string list"
  save_as_markdown :: "exn option"

datatype engine_step = Yield conv_result | Raise exn

subsection \<open>convert\_documents\<close>

record run_state =
  dstats :: DocumentConversionStats
  queue :: "message list"
  tracker :: "ProgressTracker option"
  used_names :: "string set"
  clk :: world

definition emit :: "bool \<Rightarrow> message \<Rightarrow> run_state \<Rightarrow> run_state" where
  \<comment> \<open>\<open>if progress_callback: progress_callback(m)\<close>\<close>
  "emit progress_callback m s = (if progress_callback then s\<lparr>queue := queue s @ [m]\<rparr> else s)"

definition tracker_start :: "string \<Rightarrow> int \<Rightarrow> run_state \<Rightarrow> run_state" where
  \<comment> \<open>\<open>if tracker: tracker.start_file(file_name, idx); progress_callback(tracker.to_progress_message())\<close>\<close>
  "tracker_start file_name idx s = (case tracker s of
       None \<Rightarrow> s
     | Some t \<Rightarrow>
         (let (t1, w1) = start_file file_name idx t (clk s);
              (m, w2) = to_progress_message t1 w1
          in s\<lparr>tracker := Some t1, clk := w2, queue := queue s @ [Progress m]\<rparr>))"

definition tracker_finish :: "string \<Rightarrow> int \<Rightarrow> run_state \<Rightarrow> run_state" where
  \<comment> \<open>\<open>if tracker: tracker.update_stats(status); tracker.end_file(idx);
      progress_callback(tracker.to_stats_message()); progress_callback(tracker.to_progress_message())\<close>\<close>
  "tracker_finish status_word idx s = (case tracker s of
       None \<Rightarrow> s
     | Some t \<Rightarrow>
         (let t1 = update_stats status_word t;
              (t2, w1) = end_file idx t1 (clk s);
              sm = to_stats_message t2;
              (pm, w2) = to_progress_message t2 w1
          in s\<lparr>tracker := Some t2, clk := w2, queue := queue s @ [Stats sm, Progress pm]\<rparr>))"

definition save_failed :: "bool \<Rightarrow> string \<Rightarrow> exn \<Rightarrow> int \<Rightarrow> run_state \<Rightarrow> run_state" where
  \<comment> \<open>the handler of an exception raised while saving\<close>
  "save_failed progress_callback file_name e idx s = (case e of Exception text \<Rightarrow>
     (let s1 = emit progress_callback (Log CrossMark (SaveFailed file_name text) ''ERROR'') s;
          s2 = s1\<lparr>dstats := add_failure file_name (SaveError text) (dstats s1)\<rparr>
      in tracker_finish ''failed'' idx s2))"

definition unknown_error :: string where
  \<comment> \<open>the Cyrillic words for "unknown error", in UTF-8\<close>
  "unknown_error = [CHR 0xD0, CHR 0x9D, CHR 0xD0, CHR 0xB5, CHR 0xD0, CHR 0xB8, CHR 0xD0, CHR 0xB7,
     CHR 0xD0, CHR 0xB2, CHR 0xD0, CHR 0xB5, CHR 0xD1, CHR 0x81, CHR 0xD1, CHR 0x82, CHR 0xD0, CHR 0xBD,
     CHR 0xD0, CHR 0xB0, CHR 0xD1, CHR 0x8F, CHR '' '', CHR 0xD0, CHR 0xBE, CHR 0xD1, CHR 0x88,
     CHR 0xD0, CHR 0xB8, CHR 0xD0, CHR 0xB1, CHR 0xD0, CHR 0xBA, CHR 0xD0, CHR 0xB0]"

fun join :: "string \<Rightarrow> string list \<Rightarrow> string" where
  "join sep [] = []"
| "join sep [x] = x"
| "join sep (x # y # ys) = x @ sep @ join sep (y # ys)"

definition emit_details :: "bool \<Rightarrow> string list \<Rightarrow> run_state \<Rightarrow> run_state" where
  \<comment> \<open>\<open>for err_msg in error_messages: if progress_callback: progress_callback(...)\<close>\<close>
  "emit_details progress_callback error_messages s =
     foldl (\<lambda>s' err_msg. emit progress_callback (Log WarningSign (ErrorDetail err_msg) ''WARNING'') s')
       s error_messages"

definition process_result ::
    "bool \<Rightarrow> string \<Rightarrow> int \<Rightarrow> path \<Rightarrow> conv_result \<Rightarrow> run_state \<Rightarrow> run_state option" where
  "process_result progress_callback output_dir idx original_file r s0 =
     (let file_name = name original_file;
          s = tracker_start file_name idx s0
      in if status r = SUCCESS then
           (case generate_unique_output_name output_dir original_file (used_names s) of
              None \<Rightarrow> None
            | Some (output_name, used') \<Rightarrow>
                (let s1 = s\<lparr>used_names := used'\<rparr> in
                 case save_as_markdown r of
                   Some e \<Rightarrow> Some (save_failed progress_callback file_name e idx s1)
                 | None \<Rightarrow>
                     (let s2 = emit progress_callback (Log CheckMark (SavedOk output_name) ''INFO'') s1;
                          s3 = s2\<lparr>dstats := add_success (dstats s2)\<rparr>
                      in Some (tracker_finish ''success'' idx s3))))
         else if status r = PARTIAL_SUCCESS then
           (case generate_unique_output_name output_dir original_file (used_names s) of
              None \<Rightarrow> None
            | Some (output_name, used') \<Rightarrow>
                (let s1 = s\<lparr>used_names := used'\<rparr> in
                 case save_as_markdown r of
                   Some e \<Rightarrow> Some (save_failed progress_callback file_name e idx s1)
                 | None \<Rightarrow>
                     (let error_messages = errors r;
                          s2 = emit progress_callback
                                 (Log WarningSign (PartiallyOk output_name) ''WARNING'') s1;
                          s3 = emit_details progress_callback error_messages s2;
                          s4 = s3\<lparr>dstats := add_partial_success file_name error_messages (dstats s3)\<rparr>
                      in Some (tracker_finish ''partial'' idx s4))))
         else
           (let error_msg = (if errors r \<noteq> [] then join ''; '' (errors r) else unknown_error);
                s1 = emit progress_callback
                       (Log CrossMark (ConversionFailed file_name error_msg) ''ERROR'') s;
                s2 = s1\<lparr>dstats := add_failure file_name (ConversionError error_msg) (dstats s1)\<rparr>
            in Some (tracker_finish ''failed'' idx s2)))"

text \<open>\<open>xs[i]\<close>: negative indices count from the end, an index out of range raises.\<close>

definition py_index :: "'a list \<Rightarrow> int \<Rightarrow> exn + 'a" where
  "py_index xs i =
     (if 0 \<le> i \<and> i < int (length xs) then Inr (xs ! nat i)
      else if i < 0 \<and> - int (length xs) \<le> i then Inr (xs ! nat (int (length xs) + i))
      else Inl (Exception ''list index out of range''))"

text \<open>
  The loop over the results. Each iteration first asks the engine for the next result,
  then checks the stop request, then looks the file up by its position. The result is
  the exception that left the loop, if any, and the state reached; \<open>None\<close> is a run
  that does not end.
\<close>

fun results_loop ::
    "bool \<Rightarrow> (int \<Rightarrow> bool) option \<Rightarrow> string \<Rightarrow> path list \<Rightarrow> int \<Rightarrow> engine_step list \<Rightarrow> run_state
       \<Rightarrow> (exn option \<times> run_state) option" where
  "results_loop progress_callback stop_check output_dir files_to_convert idx [] s = Some (None, s)"
| "results_loop progress_callback stop_check output_dir files_to_convert idx (Raise e # rest) s =
     Some (Some e, s)"
| "results_loop progress_callback stop_check output_dir files_to_convert idx (Yield r # rest) s =
     (if (case stop_check of None \<Rightarrow> False | Some check \<Rightarrow> check idx) then Some (None, s)
      else (case py_index files_to_convert (idx - 1) of
              Inl e \<Rightarrow> Some (Some e, s)
            | Inr original_file \<Rightarrow>
                (case process_result progress_callback output_dir idx original_file r s of
                   None \<Rightarrow> None
                 | Some s' \<Rightarrow>
                     results_loop progress_callback stop_check output_dir files_to_convert
                       (idx + 1) rest s')))"

text \<open>The size filter: \<open>stat()\<close> is asked for every file, and its exception is not caught.\<close>

fun size_filter ::
    "Config \<Rightarrow> path list \<Rightarrow> path list \<Rightarrow> DocumentConversionStats
       \<Rightarrow> exn option \<times> path list \<times> DocumentConversionStats" where
  "size_filter config [] files_to_convert d = (None, files_to_convert, d)"
| "size_filter config (file_path # files) files_to_convert d =
     (case st_size file_path of
        Inl e \<Rightarrow> (Some e, files_to_convert, d)
      | Inr file_size \<Rightarrow>
          if MAX_FILE_SIZE config > 0 \<and> file_size > MAX_FILE_SIZE config
          then size_filter config files files_to_convert
                 (add_skipped (name file_path) (SizeOverLimit file_size (MAX_FILE_SIZE config)) d)
          else size_filter config files (files_to_convert @ [file_path]) d)"

text \<open>
  What the surroundings of a run decide: whether creating the output directory raises,
  the steps of the engine, and, in the worker, whether the imports, the creation of the
  output directory and the set-up of the converter raise.
\<close>

record environment =
  import_raises :: "exn option"
  worker_mkdir_raises :: "exn option"
  setup_raises :: "exn option"
  mkdir_raises :: "exn option"
  engine :: "engine_step list"

definition convert_documents ::
    "environment \<Rightarrow> path list \<Rightarrow> string \<Rightarrow> Config \<Rightarrow> bool \<Rightarrow> (int \<Rightarrow> bool) option \<Rightarrow> run_state
       \<Rightarrow> (exn option \<times> run_state) option" where
  "convert_documents env files output_dir config progress_callback stop_check s0 =
     (case mkdir_raises env of
        Some e \<Rightarrow> Some (Some e, s0)
      | None \<Rightarrow>
     (case size_filter config files [] (dstats s0) of
        (Some e, files_to_convert, d) \<Rightarrow> Some (Some e, s0\<lparr>dstats := d\<rparr>)
      | (None, files_to_convert, d) \<Rightarrow>
     (let s1 = s0\<lparr>dstats := d\<lparr>doc_total_files := int (length files_to_convert)\<rparr>\<rparr> in
      if files_to_convert = [] then Some (None, s1)
      else
     (let s2 = emit progress_callback
                 (Log InfoSign (StartingConversion (int (length files_to_convert))) ''INFO'') s1;
          s3 = s2\<lparr>used_names := {}\<rparr>;
          s4 = (if progress_callback
                then (let (t, w) = new_ProgressTracker (int (length files_to_convert)) (clk s3)
                      in s3\<lparr>tracker := Some t, clk := w\<rparr>)
                else s3\<lparr>tracker := None\<rparr>);
          s5 = tracker_start (name (hd files_to_convert)) 1 s4
      in case results_loop progress_callback stop_check output_dir files_to_convert 1 (engine env) s5 of
           None \<Rightarrow> None
         | Some (None, s6) \<Rightarrow> Some (None, s6)
         | Some (Some e, s6) \<Rightarrow>
             if \<not> CONTINUE_ON_ERROR config then Some (Some e, s6) else Some (None, s6)))))"

section \<open>gui\_controller.py\<close>

text \<open>
  The worker thread. Its result is the exception that leaves it, if any, and the
  messages it has put on the queue, those of the progress callback included.
\<close>

definition worker_body ::
    "environment \<Rightarrow> Config \<Rightarrow> string \<Rightarrow> (int \<Rightarrow> bool) \<Rightarrow> path list \<Rightarrow> world
       \<Rightarrow> (exn option \<times> message list) option" where
  "worker_body env config output_dir stop_requested files w =
     (case import_raises env of Some e \<Rightarrow> Some (Some e, []) | None \<Rightarrow>
     (case worker_mkdir_raises env of Some e \<Rightarrow> Some (Some e, []) | None \<Rightarrow>
     (let q = [Log InfoSign SettingUpConverter ''INFO''] in
      case setup_raises env of Some e \<Rightarrow> Some (Some e, q) | None \<Rightarrow>
     (let s0 = \<lparr>dstats = new_DocumentConversionStats, queue = q, tracker = None,
                used_names = {}, clk = w\<rparr>
      in case convert_documents env files output_dir config True (Some stop_requested) s0 of
           None \<Rightarrow> None
         | Some (Some e, s) \<Rightarrow> Some (Some e, queue s)
         | Some (None, s) \<Rightarrow>
             Some (None, queue s @ [Complete \<lparr>success = successful (dstats s),
                                              partial = partial_success (dstats s),
                                              failed = doc_failed (dstats s),
                                              skipped = doc_skipped (dstats s)\<rparr>])))))"

definition conversion_worker ::
    "environment \<Rightarrow> Config \<Rightarrow> string \<Rightarrow> (int \<Rightarrow> bool) \<Rightarrow> path list \<Rightarrow> world
       \<Rightarrow> (exn option \<times> message list) option" where
  "conversion_worker env config output_dir stop_requested files w =
     (case worker_body env config output_dir stop_requested files w of
        None \<Rightarrow> None
      | Some (None, q) \<Rightarrow> Some (None, q)
      | Some (Some (Exception text), q) \<Rightarrow> Some (None, q @ [Error text]))"

text \<open>A sequence of outcomes recorded one after the other.\<close>

fun update_stats_all :: "string list \<Rightarrow> ProgressTracker \<Rightarrow> ProgressTracker" where
  "update_stats_all [] t = t"
| "update_stats_all (s # ss) t = update_stats_all ss (update_stats s t)"

text \<open>A clock that advances one second per reading, for concrete runs.\<close>

definition sample_clock :: "nat \<Rightarrow> rat" where
  "sample_clock n = of_nat n"

definition sample_world :: world where
  "sample_world = \<lparr>clock = sample_clock, reads = 0\<rparr>"

section \<open>Notions used to state the properties of a run\<close>

text \<open>The test of the size filter, \<open>config.MAX_FILE_SIZE > 0 and file_size > config.MAX_FILE_SIZE\<close>,
  as a predicate on files whose size can be read.\<close>

definition too_large :: "Config \<Rightarrow> path \<Rightarrow> bool" where
  "too_large config f = (case st_size f of
       Inl e \<Rightarrow> False
     | Inr file_size \<Rightarrow> MAX_FILE_SIZE config > 0 \<and> file_size > MAX_FILE_SIZE config)"

text \<open>
  The events of one item, as the loop body emits them: a progress event when the item
  starts, the log event of its outcome, for a partial success one warning per error of
  the engine, then the statistics event and a progress event, both progress events
  carrying the position of the item.
\<close>

fun item_tail :: "int \<Rightarrow> message list \<Rightarrow> bool" where
  "item_tail idx [Stats sm, Progress p] = (msg_current p = idx)"
| "item_tail idx (Log WarningSign (ErrorDetail x) l # rest) = item_tail idx rest"
| "item_tail idx ms = False"

fun item_events :: "int \<Rightarrow> message list \<Rightarrow> bool" where
  "item_events idx (Progress p # Log e t l # rest) = (msg_current p = idx \<and> item_tail idx rest)"
| "item_events idx ms = False"

text \<open>The outcomes recorded by the loop: successes, partial successes and failures.\<close>

definition outcomes :: "DocumentConversionStats \<Rightarrow> int" where
  "outcomes d = successful d + partial_success d + doc_failed d"

text \<open>
  What the tracker of a run shows in its events: the progress events carry the total
  \<open>n\<close>, the statistics events the number \<open>k\<close> of skipped files.
\<close>

fun tracker_view_ok :: "int \<Rightarrow> int \<Rightarrow> message \<Rightarrow> bool" where
  "tracker_view_ok n k (Progress p) = (msg_total p = n)"
| "tracker_view_ok n k (Stats sm) = (skipped (msg_stats sm) = k)"
| "tracker_view_ok n k m = True"

text \<open>
  The invariant of the loop (a finite set of used names, a tracker with total \<open>n\<close>
  and \<open>k\<close> skipped files), and what one iteration and a sequence of iterations
  starting at position \<open>idx\<close> do to the state.
\<close>

definition run_inv :: "int \<Rightarrow> int \<Rightarrow> run_state \<Rightarrow> bool" where
  "run_inv n k s = (finite (used_names s) \<and>
     (case tracker s of None \<Rightarrow> False | Some t \<Rightarrow> total_files t = n \<and> skipped (stats t) = k))"

definition step_ok :: "int \<Rightarrow> int \<Rightarrow> int \<Rightarrow> run_state \<Rightarrow> run_state \<Rightarrow> bool" where
  "step_ok n k idx s s' = (run_inv n k s' \<and>
     item_events idx (drop (length (queue s)) (queue s')) \<and>
     list_all (tracker_view_ok n k) (drop (length (queue s)) (queue s')) \<and>
     take (length (queue s)) (queue s') = queue s \<and>
     outcomes (dstats s') = outcomes (dstats s) + 1 \<and>
     doc_skipped (dstats s') = doc_skipped (dstats s) \<and>
     doc_total_files (dstats s') = doc_total_files (dstats s))"

definition loop_ok :: "int \<Rightarrow> int \<Rightarrow> int \<Rightarrow> run_state \<Rightarrow> run_state \<Rightarrow> message list list \<Rightarrow> bool" where
  "loop_ok n k idx s s' blocks = (run_inv n k s' \<and>
     queue s' = queue s @ concat blocks \<and>
     (\<forall>i<length blocks. item_events (idx + int i) (blocks ! i)) \<and>
     list_all (tracker_view_ok n k) (concat blocks) \<and>
     list_all (\<lambda>m. \<not> is_terminal m) (concat blocks) \<and>
     outcomes (dstats s') = outcomes (dstats s) + int (length blocks) \<and>
     doc_skipped (dstats s') = doc_skipped (dstats s) \<and>
     doc_total_files (dstats s') = doc_total_files (dstats s))"

subsection \<open>Concrete runs\<close>

text \<open>Two stop requests: one that never comes, one observed from the second iteration on.\<close>

definition never_stop :: "int \<Rightarrow> bool" where "never_stop idx = False"

definition stop_from_2 :: "int \<Rightarrow> bool" where "stop_from_2 idx = (2 \<le> idx)"

text \<open>
  Files of 10, 20 and 100 bytes, a file whose \<open>stat()\<close> raises, a configuration with a
  limit of 50 bytes that continues on errors, a successful result whose document can be
  saved, and surroundings in which nothing but the engine can raise.
\<close>

definition file_a :: path where "file_a = \<lparr>name = ''a.pdf'', stem = ''a'', st_size = Inr 10\<rparr>"

definition file_b :: path where "file_b = \<lparr>name = ''a.docx'', stem = ''a'', st_size = Inr 20\<rparr>"

definition file_big :: path where "file_big = \<lparr>name = ''big.pdf'', stem = ''big'', st_size = Inr 100\<rparr>"

definition file_gone :: path where
  "file_gone = \<lparr>name = ''gone.pdf'', stem = ''gone'', st_size = Inl (Exception ''No such file or directory'')\<rparr>"

definition config_limit :: Config where
  "config_limit = \<lparr>MAX_FILE_SIZE = 50, MAX_NUM_PAGES = 0, CONTINUE_ON_ERROR = True\<rparr>"

definition result_ok :: conv_result where
  "result_ok = \<lparr>status = SUCCESS, errors = [], save_as_markdown = None\<rparr>"

definition quiet_env :: "engine_step list \<Rightarrow> environment" where
  "quiet_env steps = \<lparr>import_raises = None, worker_mkdir_raises = None, setup_raises = None,
     mkdir_raises = None, engine = steps\<rparr>"

text \<open>The state at the start of the loop for one file, and the state before a run.\<close>

definition sample_state :: run_state where
  "sample_state = \<lparr>dstats = new_DocumentConversionStats, queue = [],
     tracker = Some (fst (new_ProgressTracker 1 sample_world)), used_names = {},
     clk = snd (new_ProgressTracker 1 sample_world)\<rparr>"

definition idle_state :: run_state where
  "idle_state = \<lparr>dstats = new_DocumentConversionStats, queue = [], tracker = None,
     used_names = {}, clk = sample_world\<rparr>"

text \<open>
  Views of a result: the types of the messages on the queue, and the total, the skipped
  count and the absence of a tracker after \<open>convert_documents\<close>.
\<close>

definition queue_types :: "(exn option \<times> message list) option \<Rightarrow> string list option" where
  "queue_types res = map_option (\<lambda>(ex, q). map msg_type q) res"

definition state_types :: "(exn option \<times> run_state) option \<Rightarrow> string list option" where
  "state_types res = map_option (\<lambda>(ex, s). map msg_type (queue s)) res"

definition totals_after :: "(exn option \<times> run_state) option \<Rightarrow> (int \<times> int \<times> bool) option" where
  "totals_after res = map_option
     (\<lambda>(ex, s). (doc_total_files (dstats s), doc_skipped (dstats s), tracker s = None)) res"

section \<open>Properties of the tracker\<close>

lemma update_stats_total_files [simp]: "total_files (update_stats s t) = total_files t"
  by (simp add: update_stats_def Let_def)

lemma update_stats_step:
  "total_processed (stats (update_stats s t)) \<le> total_processed (stats t) + 1"
  by (simp add: update_stats_def Let_def total_processed_def)

lemma update_stats_all_total_files [simp]:
  "total_files (update_stats_all ss t) = total_files t"
  by (induction ss arbitrary: t) simp_all

lemma update_stats_all_bound:
  "total_processed (stats (update_stats_all ss t)) \<le> total_processed (stats t) + int (length ss)"
proof (induction ss arbitrary: t)
  case Nil
  show ?case by simp
next
  case (Cons s ss)
  have "total_processed (stats (update_stats_all ss (update_stats s t)))
          \<le> total_processed (stats (update_stats s t)) + int (length ss)"
    by (rule Cons.IH)
  also have "\<dots> \<le> total_processed (stats t) + 1 + int (length ss)"
    using update_stats_step [of s t] by simp
  finally show ?case by simp
qed

lemma lower_examples:
  "lower ''SUCCESS'' = ''success''"
  "lower ''Partial_Success'' = ''partial_success''"
  "lower ''success'' = ''success''"
  "lower ''failed'' = ''failed''"
  "lower ''partial'' = ''partial''"
  "lower ''error'' = ''error''"
  "lower ''skipped'' = ''skipped''"
  "lower ''done'' = ''done''"
  by code_simp+



text \<open>
  C10. \<open>get_current_file_percentage\<close> returns \<open>None\<close> in every tracker state, and so
  the \<open>current_file_percentage\<close> field of every message built by
  \<open>to_progress_message\<close> is \<open>None\<close>.
\<close>

theorem current_file_percentage_is_None:
  "get_current_file_percentage t = None \<and>
   msg_current_file_percentage (fst (to_progress_message t w)) = None"
  by (simp add: to_progress_message_def get_current_file_percentage_def Let_def
      split: prod.splits)

text \<open>
  C4, as stated, fails: the tracker does not compare its counters with \<open>total_files\<close>,
  and a tracker for one file that records two outcomes has processed more than its
  total.
\<close>

theorem total_processed_exceeds_total_files:
  "total_files (update_stats ''success'' (update_stats ''success''
      (fst (new_ProgressTracker 1 sample_world)))) = 1 \<and>
   total_processed (stats (update_stats ''success'' (update_stats ''success''
      (fst (new_ProgressTracker 1 sample_world))))) = 2"
  by (simp add: update_stats_def lower_examples new_ProgressTracker_def
      time_time_def new_ConversionStats_def total_processed_def Let_def)

text \<open>
  C4, amended. \<open>total_processed\<close> is the sum of the four counters; every recorded
  outcome raises it by at most one; hence after a sequence of outcomes it does not
  exceed \<open>total_files\<close> whenever the outcomes already counted plus those of the
  sequence are at most \<open>total_files\<close>.
\<close>

theorem total_processed_le_total_files:
  assumes "total_processed (stats t) + int (length ss) \<le> total_files t"
  shows "total_processed (stats (update_stats_all ss t))
           = success (stats (update_stats_all ss t)) + partial (stats (update_stats_all ss t))
             + failed (stats (update_stats_all ss t)) + skipped (stats (update_stats_all ss t)) \<and>
         total_processed (stats (update_stats_all ss t))
           \<le> total_processed (stats t) + int (length ss) \<and>
         total_processed (stats (update_stats_all ss t)) \<le> total_files (update_stats_all ss t)"
proof -
  have "total_processed (stats (update_stats_all ss t))
          \<le> total_processed (stats t) + int (length ss)"
    by (rule update_stats_all_bound)
  with assms show ?thesis
    by (simp add: total_processed_def)
qed

theorem total_processed_le_total_files_witness:
  "total_processed (stats (fst (new_ProgressTracker 2 sample_world)))
     + int (length [''success'', ''failed'']) \<le> total_files (fst (new_ProgressTracker 2 sample_world)) \<and>
   total_processed (stats (update_stats_all [''success'', ''failed'']
     (fst (new_ProgressTracker 2 sample_world)))) = 2 \<and>
   total_files (update_stats_all [''success'', ''failed'']
     (fst (new_ProgressTracker 2 sample_world))) = 2"
  using total_processed_le_total_files [of "fst (new_ProgressTracker 2 sample_world)"
      "[''success'', ''failed'']"]
  by (simp add: update_stats_def lower_examples new_ProgressTracker_def
      time_time_def new_ConversionStats_def total_processed_def Let_def)

text \<open>
  C5. The percentage is computed in floating point, \<open>int((processed / total) * 100)\<close>.
  With 29 of 100 files processed the quotient is the double nearest to 0.29, which lies
  below it; its product with 100 rounds to the double just below 29, and the truncation
  gives 28, where \<open>floor(100 * 29 / 100)\<close> is 29.
\<close>

lemma percentage_float_29_of_100:
  "py_int (fmul (int_truediv 29 100) (float_of_int 100)) = 28"
  by code_simp

lemma tracker_29_of_100:
  "total_processed (stats (update_stats_all (replicate 29 ''success'')
      (fst (new_ProgressTracker 100 sample_world)))) = 29"
  by code_simp

theorem get_progress_percentage_29_of_100:
  "get_progress_percentage (update_stats_all (replicate 29 ''success'')
      (fst (new_ProgressTracker 100 sample_world))) = 28 \<and>
   \<lfloor>100 * 29 / 100 :: rat\<rfloor> = 29"
proof -
  have "total_files (update_stats_all (replicate 29 ''success'')
      (fst (new_ProgressTracker 100 sample_world))) = 100"
    by (simp add: new_ProgressTracker_def time_time_def)
  then show ?thesis
    by (simp add: get_progress_percentage_def tracker_29_of_100 percentage_float_29_of_100)
qed

text \<open>The time format starts with a digit or a minus sign, never with the first byte of
  the "calculating" text.\<close>

lemma digits_hd:
  "0 \<le> n \<Longrightarrow> digits n \<noteq> [] \<and> (of_char (hd (digits n)) :: int) < 58"
proof (induction n rule: digits.induct)
  case (1 n)
  show ?case
  proof (cases "n < 10")
    case True
    with "1.prems" show ?thesis
      by (subst (1 2) digits.simps) simp
  next
    case False
    then have "0 \<le> n div 10" by simp
    with False "1.IH" have "digits (n div 10) \<noteq> [] \<and> (of_char (hd (digits (n div 10))) :: int) < 58"
      by simp
    with False show ?thesis
      by (subst (1 2) digits.simps) simp
  qed
qed

lemma fmt02d_hd: "fmt02d n \<noteq> [] \<and> (of_char (hd (fmt02d n)) :: int) < 58"
  using digits_hd [of n] by (simp add: fmt02d_def)

lemma format_time_not_calculating: "format_time s \<noteq> calculating"
proof -
  have "(of_char (hd (format_time s)) :: int) < 58"
    using fmt02d_hd by (simp add: format_time_def Let_def)
  moreover have "(of_char (hd calculating) :: int) = 208"
    by (simp add: calculating_def)
  ultimately show ?thesis by auto
qed

text \<open>
  C6, amended. \<open>get_eta\<close> returns the "calculating" text with 0 seconds exactly when
  nothing has been processed; when something has been processed and no file remains
  (\<open>total_files \<le> total_processed\<close>) it returns \<open>00:00:00\<close> with 0 seconds and
  does not read the clock; otherwise the seconds are the float product of the remaining
  files with the float quotient of the elapsed time by the processed count, and the text
  is \<open>_format_time\<close> of these seconds.
\<close>

theorem get_eta_cases:
  "(fst (get_eta t w) = (0, calculating) \<longleftrightarrow> total_processed (stats t) = 0) \<and>
   (total_processed (stats t) \<noteq> 0 \<and> total_files t \<le> total_processed (stats t) \<longrightarrow>
      get_eta t w = ((0, ''00:00:00''), w)) \<and>
   (total_processed (stats t) \<noteq> 0 \<and> total_processed (stats t) < total_files t \<longrightarrow>
      fst (fst (get_eta t w))
        = fmul (float_of_int (total_files t - total_processed (stats t)))
            (fdiv (fsub (clock w (reads w)) (start_time t))
                  (float_of_int (total_processed (stats t)))) \<and>
      snd (fst (get_eta t w)) = format_time (fst (fst (get_eta t w))))"
  using format_time_not_calculating
  by (auto simp add: get_eta_def get_average_time_per_file_def get_elapsed_time_def
      time_time_def Let_def calculating_def split: prod.splits)


text \<open>
  C6, as stated, fails for a tracker of no files: there \<open>total_processed\<close> equals
  \<open>total_files\<close>, and \<open>get_eta\<close> still answers with the "calculating" text, not
  with \<open>00:00:00\<close>, because the test for nothing processed comes first.
\<close>

theorem get_eta_zero_total:
  "total_processed (stats (fst (new_ProgressTracker 0 sample_world)))
     = total_files (fst (new_ProgressTracker 0 sample_world)) \<and>
   fst (get_eta (fst (new_ProgressTracker 0 sample_world)) (snd (new_ProgressTracker 0 sample_world)))
     = (0, calculating) \<and>
   calculating \<noteq> ''00:00:00''"
  by (simp add: get_eta_def new_ProgressTracker_def time_time_def new_ConversionStats_def
      total_processed_def calculating_def)

lemma eta_examples:
  "total_processed (stats (update_stats ''success'' (fst (new_ProgressTracker 1 sample_world)))) = 1"
  "total_files (fst (new_ProgressTracker 1 sample_world)) = 1"
  "total_processed (stats (update_stats ''success'' (fst (new_ProgressTracker 3 sample_world)))) = 1"
  "total_files (fst (new_ProgressTracker 3 sample_world)) = 3"
  "start_time (update_stats ''success'' (fst (new_ProgressTracker 3 sample_world))) = 0"
  "clock (snd (new_ProgressTracker 3 sample_world)) (reads (snd (new_ProgressTracker 3 sample_world))) = 1"
  "total_processed (stats (fst (new_ProgressTracker 3 sample_world))) = 0"
  by (simp_all add: update_stats_def lower_examples new_ProgressTracker_def time_time_def
      new_ConversionStats_def total_processed_def sample_world_def sample_clock_def)

lemma eta_float_examples:
  "fmul (float_of_int 2) (fdiv (fsub 1 0) (float_of_int 1)) = 2"
  "format_time 2 = ''00:00:02''"
  by code_simp+

theorem get_eta_cases_witness:
  "fst (get_eta (fst (new_ProgressTracker 3 sample_world)) (snd (new_ProgressTracker 3 sample_world)))
     = (0, calculating) \<and>
   fst (get_eta (update_stats ''success'' (fst (new_ProgressTracker 1 sample_world)))
          (snd (new_ProgressTracker 1 sample_world))) = (0, ''00:00:00'') \<and>
   fst (get_eta (update_stats ''success'' (fst (new_ProgressTracker 3 sample_world)))
          (snd (new_ProgressTracker 3 sample_world))) = (2, ''00:00:02'')"
  using get_eta_cases [of "fst (new_ProgressTracker 3 sample_world)"
          "snd (new_ProgressTracker 3 sample_world)"]
    get_eta_cases [of "update_stats ''success'' (fst (new_ProgressTracker 1 sample_world))"
          "snd (new_ProgressTracker 1 sample_world)"]
    get_eta_cases [of "update_stats ''success'' (fst (new_ProgressTracker 3 sample_world))"
          "snd (new_ProgressTracker 3 sample_world)"]
  by (simp add: eta_examples eta_float_examples prod_eq_iff)


section \<open>Properties of the output names\<close>

lemma digits_value_digits: "0 \<le> n \<Longrightarrow> digits_value (digits n) = n"
proof (induction n rule: digits.induct)
  case (1 n)
  show ?case
  proof (cases "n < 10")
    case True
    with "1.prems" show ?thesis
      by (subst digits.simps) (simp add: digits_value_def)
  next
    case False
    with "1.IH" have "digits_value (digits (n div 10)) = n div 10" by simp
    moreover have "(48 + n mod 10) mod 256 = 48 + n mod 10"
      by (rule mod_pos_pos_trivial) (use pos_mod_bound [of 10 n] pos_mod_sign [of 10 n] in simp_all)
    ultimately show ?thesis using False
      by (subst digits.simps) (simp add: digits_value_def)
  qed
qed

lemma digits_inj: "0 \<le> m \<Longrightarrow> 0 \<le> n \<Longrightarrow> digits m = digits n \<Longrightarrow> m = n"
  using digits_value_digits by metis

lemma candidate_free:
  assumes "finite used"
  shows "\<exists>k\<ge>c. 0 \<le> k \<and> base_name @ ''_'' @ digits k @ ''.md'' \<notin> used"
proof (rule ccontr)
  assume "\<not> ?thesis"
  then have sub: "(\<lambda>k. base_name @ ''_'' @ digits k @ ''.md'') ` {max c 0..} \<subseteq> used"
    by auto
  have "inj_on (\<lambda>k. base_name @ ''_'' @ digits k @ ''.md'') {max c 0..}"
    by (rule inj_onI) (auto dest: digits_inj)
  with sub assms have "finite {max c 0..}"
    using finite_subset finite_imageD by blast
  then show False using infinite_Ici by blast
qed

lemma name_loop_terminates:
  assumes "1 \<le> c" "c \<le> k" "base_name @ ''_'' @ digits k @ ''.md'' \<notin> used"
  shows "\<exists>r. name_loop base_name used (base_name @ ''_'' @ digits c @ ''.md'') (c + 1) = Some r
            \<and> r \<notin> used"
  using assms
proof (induction "nat (k - c)" arbitrary: c)
  case 0
  then have "c = k" by simp
  with "0.prems" show ?case
    by (subst name_loop.simps) simp
next
  case (Suc d)
  show ?case
  proof (cases "base_name @ ''_'' @ digits c @ ''.md'' \<in> used")
    case False
    then show ?thesis by (subst name_loop.simps) simp
  next
    case True
    from Suc.hyps(2) Suc.prems have "d = nat (k - (c + 1))" "1 \<le> c + 1" "c + 1 \<le> k"
      by simp_all
    from Suc.hyps(1) [OF this Suc.prems(3)] True show ?thesis
      by (subst name_loop.simps) simp
  qed
qed

lemma generate_fresh:
  assumes "finite used"
  shows "\<exists>output_name. generate_unique_output_name output_dir original_path used
             = Some (output_name, insert output_name used)
           \<and> output_name \<notin> used"
proof (cases "stem original_path @ ''.md'' \<in> used")
  case False
  then show ?thesis
    by (simp add: generate_unique_output_name_def name_loop.simps)
next
  case True
  from candidate_free [OF assms, of 1 "stem original_path"]
  obtain k where k: "1 \<le> k" "stem original_path @ ''_'' @ digits k @ ''.md'' \<notin> used"
    by auto
  have "\<exists>r. name_loop (stem original_path) used
      (stem original_path @ ''_'' @ digits 1 @ ''.md'') (1 + 1) = Some r \<and> r \<notin> used"
    by (rule name_loop_terminates [where k = k]) (use k in simp_all)
  then obtain r where "name_loop (stem original_path) used
      (stem original_path @ ''_'' @ digits 1 @ ''.md'') 2 = Some r" "r \<notin> used"
    by auto
  with True show ?thesis
    by (simp add: generate_unique_output_name_def name_loop.simps [of _ _ "stem original_path @ ''.md''"])
qed








section \<open>Properties of a run\<close>

lemma emit_details_fields [simp]:
  "queue (emit_details True errs s)
     = queue s @ map (\<lambda>x. Log WarningSign (ErrorDetail x) ''WARNING'') errs"
  "dstats (emit_details cb errs s) = dstats s"
  "tracker (emit_details cb errs s) = tracker s"
  "used_names (emit_details cb errs s) = used_names s"
  "clk (emit_details cb errs s) = clk s"
  unfolding emit_details_def
  by (induction errs arbitrary: s) (simp_all add: emit_def)

lemma item_tail_details:
  "item_tail idx (map (\<lambda>x. Log WarningSign (ErrorDetail x) ''WARNING'') errs @ [Stats sm, Progress p])
     = (msg_current p = idx)"
  by (induction errs) simp_all

lemma to_progress_message_current [simp]:
  "msg_current (fst (to_progress_message t w)) = current_file_index t"
  by (simp add: to_progress_message_def case_prod_beta Let_def)

lemma start_file_index [simp]:
  "current_file_index (fst (start_file f i t w)) = i"
  by (simp add: start_file_def case_prod_beta)

lemma end_file_index [simp]:
  "current_file_index (fst (end_file i t w)) = current_file_index t"
  by (simp add: end_file_def case_prod_beta)

lemma update_stats_index [simp]:
  "current_file_index (update_stats k t) = current_file_index t"
  by (simp add: update_stats_def Let_def)

lemma tracker_start_fields:
  assumes "tracker s = Some t"
  shows "queue (tracker_start f i s)
           = queue s @ [Progress (fst (to_progress_message (fst (start_file f i t (clk s)))
                                    (snd (start_file f i t (clk s)))))]"
    "tracker (tracker_start f i s) = Some (fst (start_file f i t (clk s)))"
    "dstats (tracker_start f i s) = dstats s"
    "used_names (tracker_start f i s) = used_names s"
  using assms by (simp_all add: tracker_start_def case_prod_beta)

lemma tracker_finish_fields:
  assumes "tracker s = Some t"
  shows "\<exists>sm pm t'. queue (tracker_finish k i s) = queue s @ [Stats sm, Progress pm]
           \<and> msg_current pm = current_file_index t
           \<and> tracker (tracker_finish k i s) = Some t'
           \<and> current_file_index t' = current_file_index t"
    "dstats (tracker_finish k i s) = dstats s"
    "used_names (tracker_finish k i s) = used_names s"
  using assms by (simp_all add: tracker_finish_def case_prod_beta Let_def)

lemma to_progress_message_total [simp]:
  "msg_total (fst (to_progress_message t w)) = total_files t"
  by (simp add: to_progress_message_def case_prod_beta Let_def)

lemma start_file_keeps [simp]:
  "total_files (fst (start_file f i t w)) = total_files t"
  "stats (fst (start_file f i t w)) = stats t"
  by (simp_all add: start_file_def case_prod_beta)

lemma end_file_keeps [simp]:
  "total_files (fst (end_file i t w)) = total_files t"
  "stats (fst (end_file i t w)) = stats t"
  by (simp_all add: end_file_def case_prod_beta)

lemma update_stats_skipped [simp]:
  "skipped (stats (update_stats ''success'' t)) = skipped (stats t)"
  "skipped (stats (update_stats ''partial'' t)) = skipped (stats t)"
  "skipped (stats (update_stats ''failed'' t)) = skipped (stats t)"
  by (simp_all add: update_stats_def lower_examples)

lemma list_all_details [simp]:
  "list_all (tracker_view_ok n k) (map (\<lambda>x. Log WarningSign (ErrorDetail x) ''WARNING'') errs)"
  by (induction errs) simp_all

lemma process_result_step:
  assumes "run_inv n k s"
  shows "\<exists>s'. process_result True d idx f r s = Some s' \<and> step_ok n k idx s s'"
proof -
  from assms obtain t where t: "tracker s = Some t" "total_files t = n" "skipped (stats t) = k"
    and fin: "finite (used_names s)"
    by (auto simp add: run_inv_def split: option.splits)
  from generate_fresh [OF fin, of d f]
  obtain nm where nm: "generate_unique_output_name d f (used_names s)
      = Some (nm, insert nm (used_names s))"
    by blast
  show ?thesis
  proof (cases "save_as_markdown r")
    case None
    with t fin nm show ?thesis
      by (simp add: process_result_def step_ok_def run_inv_def tracker_start_def
          tracker_finish_def emit_def case_prod_beta Let_def to_stats_message_def
          add_success_def add_partial_success_def add_failure_def outcomes_def
          item_tail_details)
  next
    case (Some e)
    obtain msg where e: "e = Exception msg" by (cases e)
    with Some t fin nm show ?thesis
      by (simp add: process_result_def step_ok_def run_inv_def tracker_start_def
          tracker_finish_def emit_def save_failed_def case_prod_beta Let_def to_stats_message_def
          add_success_def add_partial_success_def add_failure_def outcomes_def)
  qed
qed

lemma is_terminal_simps [simp]:
  "\<not> is_terminal (Log e t l)" "\<not> is_terminal (Progress p)" "\<not> is_terminal (Stats sm)"
  "is_terminal (Complete c)" "is_terminal (Error x)"
  by (simp_all add: is_terminal_def)

lemma item_tail_not_terminal:
  "item_tail idx ms \<Longrightarrow> list_all (\<lambda>m. \<not> is_terminal m) ms"
  by (induction idx ms rule: item_tail.induct) simp_all

lemma item_events_not_terminal:
  "item_events idx ms \<Longrightarrow> list_all (\<lambda>m. \<not> is_terminal m) ms"
  by (induction idx ms rule: item_events.induct) (simp_all add: item_tail_not_terminal)

lemma loop_ok_refl: "run_inv n k s \<Longrightarrow> loop_ok n k idx s s []"
  by (simp add: loop_ok_def)

lemma loop_ok_step:
  assumes "step_ok n k idx s s1" "loop_ok n k (idx + 1) s1 s' blocks"
  shows "loop_ok n k idx s s' (drop (length (queue s)) (queue s1) # blocks)"
proof -
  let ?b = "drop (length (queue s)) (queue s1)"
  from assms(1) have q1: "queue s1 = queue s @ ?b"
    by (metis append_take_drop_id step_ok_def)
  from assms(1) have b: "item_events idx ?b" "list_all (tracker_view_ok n k) ?b"
    by (simp_all add: step_ok_def)
  have "\<forall>i<length (?b # blocks). item_events (idx + int i) ((?b # blocks) ! i)"
  proof (intro allI impI)
    fix i assume i: "i < length (?b # blocks)"
    show "item_events (idx + int i) ((?b # blocks) ! i)"
    proof (cases i)
      case 0
      with b show ?thesis by simp
    next
      case (Suc j)
      with i assms(2) have "item_events (idx + 1 + int j) (blocks ! j)"
        by (simp add: loop_ok_def)
      with Suc show ?thesis by (simp add: add.assoc)
    qed
  qed
  moreover have "queue s' = queue s @ concat (?b # blocks)"
    using assms(2) q1 by (simp add: loop_ok_def)
  ultimately show ?thesis
    using assms b item_events_not_terminal [OF b(1)]
    by (simp add: loop_ok_def step_ok_def)
qed


lemma results_loop_stop:
  assumes "sc (idx + int (length rs))"
  shows "results_loop cb (Some sc) d fs idx (map Yield rs @ Yield r # rest) s
           = results_loop cb (Some sc) d fs idx (map Yield rs) s"
  using assms
proof (induction rs arbitrary: idx s)
  case Nil
  then show ?case by simp
next
  case (Cons a rs)
  from Cons.prems have "sc (idx + 1 + int (length rs))" by (simp add: add.assoc)
  from Cons.IH [OF this] show ?case
    by (simp split: sum.splits option.splits)
qed

lemma results_loop_all:
  assumes "run_inv n k s" "1 \<le> idx" "idx - 1 + int (length rs) \<le> int (length fs)"
    "\<forall>j<length rs. \<not> sc (idx + int j)"
  shows "\<exists>s' blocks. results_loop True (Some sc) d fs idx (map Yield rs) s = Some (None, s')
           \<and> loop_ok n k idx s s' blocks \<and> length blocks = length rs"
  using assms
proof (induction rs arbitrary: idx s)
  case Nil
  then show ?case by (auto intro: loop_ok_refl)
next
  case (Cons r rs)
  from Cons.prems(4) have nostop: "\<not> sc idx" by auto
  from Cons.prems(2,3) have "py_index fs (idx - 1) = Inr (fs ! nat (idx - 1))"
    by (simp add: py_index_def)
  moreover
  from process_result_step [OF Cons.prems(1), of d idx "fs ! nat (idx - 1)" r]
  obtain s1 where s1: "process_result True d idx (fs ! nat (idx - 1)) r s = Some s1"
      "step_ok n k idx s s1"
    by blast
  moreover
  from s1 have inv1: "run_inv n k s1" by (simp add: step_ok_def)
  have "\<forall>j<length rs. \<not> sc (idx + 1 + int j)"
  proof (intro allI impI)
    fix j assume "j < length rs"
    with Cons.prems(4) have "\<not> sc (idx + int (Suc j))" by (metis Suc_less_eq length_Cons)
    then show "\<not> sc (idx + 1 + int j)" by (simp add: add.assoc)
  qed
  with Cons.IH [OF inv1, of "idx + 1"] Cons.prems(2,3)
  obtain s' blocks where rest:
      "results_loop True (Some sc) d fs (idx + 1) (map Yield rs) s1 = Some (None, s')"
      "loop_ok n k (idx + 1) s1 s' blocks" "length blocks = length rs"
    by auto
  ultimately have "results_loop True (Some sc) d fs idx (map Yield (r # rs)) s = Some (None, s')"
    using nostop by simp
  moreover have "loop_ok n k idx s s' (drop (length (queue s)) (queue s1) # blocks)"
    using s1(2) rest(2) by (rule loop_ok_step)
  ultimately show ?case using rest(3)
    by (intro exI [of _ s'] exI [of _ "drop (length (queue s)) (queue s1) # blocks"]) simp
qed

lemma size_filter_None:
  "size_filter c fs acc d = (None, ftc, d') \<Longrightarrow>
     ftc = acc @ filter (\<lambda>f. \<not> too_large c f) fs \<and>
     doc_skipped d' = doc_skipped d + int (length (filter (too_large c) fs)) \<and>
     outcomes d' = outcomes d \<and> doc_total_files d' = doc_total_files d"
proof (induction fs arbitrary: acc d)
  case Nil
  then show ?case by simp
next
  case (Cons f fs)
  show ?case
  proof (cases "st_size f")
    case (Inl e)
    with Cons.prems show ?thesis by simp
  next
    case (Inr file_size)
    show ?thesis
    proof (cases "MAX_FILE_SIZE c > 0 \<and> file_size > MAX_FILE_SIZE c")
      case True
      with Inr Cons.prems Cons.IH [of acc "add_skipped (name f)
          (SizeOverLimit file_size (MAX_FILE_SIZE c)) d"]
      show ?thesis
        by (simp add: too_large_def add_skipped_def outcomes_def)
    next
      case False
      with Inr Cons.prems Cons.IH [of "acc @ [f]" d]
      show ?thesis
        by (auto simp add: too_large_def)
    qed
  qed
qed

lemma size_filter_total:
  "list_all (\<lambda>f. \<not> isl (st_size f)) fs \<Longrightarrow> fst (size_filter c fs acc d) = None"
  by (induction fs arbitrary: acc d) (auto split: sum.splits)

lemma convert_documents_start:
  assumes "size_filter config files [] (dstats s0) = (None, ftc, d')" "ftc \<noteq> []"
  shows "\<exists>s5 p0. run_inv (int (length ftc)) 0 s5
           \<and> queue s5 = queue s0 @ [Log InfoSign (StartingConversion (int (length ftc))) ''INFO'',
                                    Progress p0]
           \<and> msg_total p0 = int (length ftc)
           \<and> dstats s5 = d'\<lparr>doc_total_files := int (length ftc)\<rparr>
           \<and> (\<forall>env sc. mkdir_raises env = None \<longrightarrow>
                convert_documents env files d config True sc s0
                  = (case results_loop True sc d ftc 1 (engine env) s5 of
                       None \<Rightarrow> None
                     | Some (None, s6) \<Rightarrow> Some (None, s6)
                     | Some (Some e, s6) \<Rightarrow>
                         if \<not> CONTINUE_ON_ERROR config then Some (Some e, s6) else Some (None, s6)))"
proof -
  let ?n = "int (length ftc)"
  let ?s4 = "s0\<lparr>dstats := d'\<lparr>doc_total_files := ?n\<rparr>,
                queue := queue s0 @ [Log InfoSign (StartingConversion ?n) ''INFO''],
                used_names := {},
                tracker := Some (fst (new_ProgressTracker ?n (clk s0))),
                clk := snd (new_ProgressTracker ?n (clk s0))\<rparr>"
  let ?s5 = "tracker_start (name (hd ftc)) 1 ?s4"
  let ?p0 = "fst (to_progress_message
      (fst (start_file (name (hd ftc)) 1 (fst (new_ProgressTracker ?n (clk s0)))
              (snd (new_ProgressTracker ?n (clk s0)))))
      (snd (start_file (name (hd ftc)) 1 (fst (new_ProgressTracker ?n (clk s0)))
              (snd (new_ProgressTracker ?n (clk s0))))))"
  have nt: "total_files (fst (new_ProgressTracker ?n (clk s0))) = ?n"
      "skipped (stats (fst (new_ProgressTracker ?n (clk s0)))) = 0"
    by (simp_all add: new_ProgressTracker_def new_ConversionStats_def case_prod_beta)
  have "run_inv ?n 0 ?s5"
    using nt by (simp add: run_inv_def tracker_start_def case_prod_beta)
  moreover have "queue ?s5 = queue s0 @ [Log InfoSign (StartingConversion ?n) ''INFO'', Progress ?p0]"
    by (simp add: tracker_start_def case_prod_beta)
  moreover have "msg_total ?p0 = ?n"
    using nt by simp
  moreover have "dstats ?s5 = d'\<lparr>doc_total_files := ?n\<rparr>"
    by (simp add: tracker_start_def case_prod_beta)
  moreover have "\<forall>env sc. mkdir_raises env = None \<longrightarrow>
      convert_documents env files d config True sc s0
        = (case results_loop True sc d ftc 1 (engine env) ?s5 of
             None \<Rightarrow> None
           | Some (None, s6) \<Rightarrow> Some (None, s6)
           | Some (Some e, s6) \<Rightarrow>
               if \<not> CONTINUE_ON_ERROR config then Some (Some e, s6) else Some (None, s6))"
    using assms
    by (simp add: convert_documents_def emit_def case_prod_beta Let_def)
  ultimately show ?thesis by blast
qed


lemmas run_defs = conversion_worker_def worker_body_def convert_documents_def
  quiet_env_def config_limit_def file_a_def file_b_def file_big_def file_gone_def result_ok_def
  never_stop_def stop_from_2_def sample_state_def idle_state_def
  process_result_def tracker_start_def tracker_finish_def emit_def save_failed_def
  generate_unique_output_name_def name_loop.simps py_index_def
  new_ProgressTracker_def new_DocumentConversionStats_def add_success_def add_failure_def
  add_skipped_def add_partial_success_def case_prod_beta Let_def queue_types_def state_types_def
  totals_after_def too_large_def











lemma item_tail_one_stats:
  "item_tail idx ms \<Longrightarrow> length (filter (\<lambda>m. msg_type m = ''stats'') ms) = 1"
  by (induction idx ms rule: item_tail.induct) simp_all

lemma item_events_one_stats:
  "item_events idx ms \<Longrightarrow> length (filter (\<lambda>m. msg_type m = ''stats'') ms) = 1"
  by (induction idx ms rule: item_events.induct) (simp_all add: item_tail_one_stats)

lemma blocks_stats:
  "(\<forall>i<length blocks. item_events (idx + int i) (blocks ! i)) \<Longrightarrow>
     length (filter (\<lambda>m. msg_type m = ''stats'') (concat blocks)) = length blocks"
proof (induction blocks arbitrary: idx)
  case Nil
  show ?case by simp
next
  case (Cons b blocks)
  from Cons.prems have "item_events idx b" by auto
  then have b: "length (filter (\<lambda>m. msg_type m = ''stats'') b) = 1"
    by (rule item_events_one_stats)
  have "\<forall>i<length blocks. item_events (idx + 1 + int i) (blocks ! i)"
  proof (intro allI impI)
    fix i assume "i < length blocks"
    with Cons.prems have "item_events (idx + int (Suc i)) ((b # blocks) ! Suc i)" by auto
    then show "item_events (idx + 1 + int i) (blocks ! i)" by (simp add: add.assoc)
  qed
  from Cons.IH [OF this] b show ?case by simp
qed

text \<open>
  C7. When nothing raises before the loop and the stop request is first observed at the
  top of iteration \<open>length rs + 1\<close>, the run is the run of an engine that ended after
  \<open>length rs\<close> results: the queue is the same, so nothing is recorded or emitted for
  the result at hand or any later one; the queue ends with its only terminal message, a
  \<open>complete\<close> message whose successes, partial successes and failures add up to
  \<open>length rs\<close> and whose skipped count is that of the size filter; and there is one
  statistics event per item processed before the stop.
\<close>

theorem stop_observed:
  assumes h_setup: "import_raises env = None" "worker_mkdir_raises env = None"
      "setup_raises env = None" "mkdir_raises env = None"
    and h_sizes: "list_all (\<lambda>f. \<not> isl (st_size f)) files"
    and h_steps: "engine env = map Yield rs @ Yield r # rest"
    and h_enough: "filter (\<lambda>f. \<not> too_large config f) files \<noteq> []"
      "length rs \<le> length (filter (\<lambda>f. \<not> too_large config f) files)"
    and h_before: "\<forall>j<length rs. \<not> stop_requested (1 + int j)"
    and h_at: "stop_requested (1 + int (length rs))"
  shows "\<exists>q c. conversion_worker env config output_dir stop_requested files w = Some (None, q)
           \<and> conversion_worker (env\<lparr>engine := map Yield rs\<rparr>) config output_dir stop_requested
                files w = Some (None, q)
           \<and> last q = Complete c \<and> length (filter is_terminal q) = 1
           \<and> success c + partial c + failed c = int (length rs)
           \<and> skipped c = int (length (filter (too_large config) files))
           \<and> length (filter (\<lambda>m. msg_type m = ''stats'') q) = length rs"
proof -
  let ?s0 = "\<lparr>dstats = new_DocumentConversionStats, queue = [Log InfoSign SettingUpConverter ''INFO''],
              tracker = None, used_names = {}, clk = w\<rparr>"
  let ?env' = "env\<lparr>engine := map Yield rs\<rparr>"
  obtain ex0 ftc d' where sf: "size_filter config files [] (dstats ?s0) = (ex0, ftc, d')"
    by (cases "size_filter config files [] (dstats ?s0)")
  from size_filter_total [OF h_sizes, of config "[]" "dstats ?s0"] sf have ex0: "ex0 = None"
    by simp
  from size_filter_None [OF sf [unfolded ex0]]
  have ftc: "ftc = filter (\<lambda>f. \<not> too_large config f) files"
      "doc_skipped d' = int (length (filter (too_large config) files))"
      "outcomes d' = 0"
    by (simp_all add: new_DocumentConversionStats_def outcomes_def)
  with h_enough have ne: "ftc \<noteq> []" and len: "length rs \<le> length ftc" by simp_all
  from convert_documents_start [OF sf [unfolded ex0] ne, of output_dir]
  obtain s5 p0 where s5: "run_inv (int (length ftc)) 0 s5"
      "queue s5 = queue ?s0 @ [Log InfoSign (StartingConversion (int (length ftc))) ''INFO'',
                               Progress p0]"
      "dstats s5 = d'\<lparr>doc_total_files := int (length ftc)\<rparr>"
      and cd: "\<And>env' sc. mkdir_raises env' = None \<Longrightarrow>
          convert_documents env' files output_dir config True sc ?s0
             = (case results_loop True sc output_dir ftc 1 (engine env') s5 of
                  None \<Rightarrow> None
                | Some (None, s6) \<Rightarrow> Some (None, s6)
                | Some (Some e, s6) \<Rightarrow>
                    if \<not> CONTINUE_ON_ERROR config then Some (Some e, s6) else Some (None, s6))"
    by blast
  from len have "1 - 1 + int (length rs) \<le> int (length ftc)" by simp
  from results_loop_all [OF s5(1) _ this, of stop_requested output_dir] h_before
  obtain s' blocks where loop:
      "results_loop True (Some stop_requested) output_dir ftc 1 (map Yield rs) s5 = Some (None, s')"
      "loop_ok (int (length ftc)) 0 1 s5 s' blocks" "length blocks = length rs"
    by auto
  have same: "results_loop True (Some stop_requested) output_dir ftc 1 (engine env) s5 = Some (None, s')"
    using results_loop_stop [of stop_requested 1 rs True output_dir ftc r rest s5] h_at h_steps loop(1)
    by simp
  have run: "convert_documents env files output_dir config True (Some stop_requested) ?s0
        = Some (None, s')"
    using cd [OF h_setup(4), of "Some stop_requested"] same by simp
  have run': "convert_documents ?env' files output_dir config True (Some stop_requested) ?s0
        = Some (None, s')"
    using cd [of ?env' "Some stop_requested"] h_setup(4) loop(1) by simp
  let ?c = "\<lparr>success = successful (dstats s'), partial = partial_success (dstats s'),
             failed = doc_failed (dstats s'), skipped = doc_skipped (dstats s')\<rparr>"
  let ?q = "queue s' @ [Complete ?c]"
  have w1: "conversion_worker env config output_dir stop_requested files w = Some (None, ?q)"
    using h_setup run by (simp add: conversion_worker_def worker_body_def)
  have w2: "conversion_worker ?env' config output_dir stop_requested files w = Some (None, ?q)"
    using h_setup run' by (simp add: conversion_worker_def worker_body_def)
  have q: "queue s' = [Log InfoSign SettingUpConverter ''INFO'',
        Log InfoSign (StartingConversion (int (length ftc))) ''INFO'', Progress p0] @ concat blocks"
    using loop(2) s5(2) by (simp add: loop_ok_def)
  have nt: "filter is_terminal (concat blocks) = []"
    using loop(2) by (simp add: loop_ok_def filter_empty_conv list_all_iff)
  have st: "length (filter (\<lambda>m. msg_type m = ''stats'') (concat blocks)) = length blocks"
    using loop(2) by (intro blocks_stats [of _ 1]) (simp add: loop_ok_def)
  have cnt: "success ?c + partial ?c + failed ?c = int (length rs)"
      "skipped ?c = int (length (filter (too_large config) files))"
    using loop(2,3) s5(3) ftc by (simp_all add: loop_ok_def outcomes_def)
  show ?thesis
    using w1 w2 q nt st cnt loop(3)
    by (intro exI [of _ ?q] exI [of _ ?c]) simp
qed

theorem stop_observed_witness:
  "conversion_worker (quiet_env [Yield result_ok, Yield result_ok, Yield result_ok]) config_limit
      ''out'' stop_from_2 [file_a, file_b, file_big] sample_world
     = conversion_worker (quiet_env [Yield result_ok]) config_limit
      ''out'' stop_from_2 [file_a, file_b, file_big] sample_world \<and>
   queue_types (conversion_worker (quiet_env [Yield result_ok, Yield result_ok, Yield result_ok])
      config_limit ''out'' stop_from_2 [file_a, file_b, file_big] sample_world)
     = Some [''log'', ''log'', ''progress'', ''progress'', ''log'', ''stats'', ''progress'',
             ''complete''] \<and>
   map_option (\<lambda>(ex, q). last q) (conversion_worker
      (quiet_env [Yield result_ok, Yield result_ok, Yield result_ok])
      config_limit ''out'' stop_from_2 [file_a, file_b, file_big] sample_world)
     = Some (Complete \<lparr>success = 1, partial = 0, failed = 0, skipped = 1\<rparr>)"
  using stop_observed [of "quiet_env [Yield result_ok, Yield result_ok, Yield result_ok]"
      "[file_a, file_b, file_big]" "[result_ok]" result_ok "[Yield result_ok]" config_limit
      stop_from_2 "''out''" sample_world]
  by (simp add: run_defs)

end
